theory Spec2Isabelle
  imports Main "HOL-Library.Sublist"
begin

section \<open>The S3 bucket resource of the AWS provider\<close>

text \<open>
  A shallow embedding of \<^verbatim>\<open>resource_aws_s3_bucket.go\<close>: the four lifecycle functions
  \<^verbatim>\<open>resourceAwsS3BucketCreate\<close>, \<^verbatim>\<open>resourceAwsS3BucketUpdate\<close>,
  \<^verbatim>\<open>resourceAwsS3BucketRead\<close>, \<^verbatim>\<open>resourceAwsS3BucketDelete\<close> and the website
  reconciler \<^verbatim>\<open>updateWebsite\<close>. The S3 service and the tag helpers are external: they are
  parameters of the model, and every call that leaves the file is recorded in a log.
\<close>

subsection \<open>Errors\<close>

text \<open>
  A Go \<^verbatim>\<open>error\<close> value. \<^verbatim>\<open>aws.APIError\<close> is the error type of the AWS SDK: it carries the
  HTTP status code that Read inspects with a type assertion, the service's error code and
  its message. Every other error (also the ones built by \<^verbatim>\<open>fmt.Errorf\<close>) is a plain message.
\<close>

datatype error =
    APIError (StatusCode: int) (Code: string) (Message: string)
  | errorString string

text \<open>
  The method \<^verbatim>\<open>Error()\<close>, which \<^verbatim>\<open>fmt.Errorf\<close> calls for the verb \<^verbatim>\<open>%s\<close>. For an
  \<^verbatim>\<open>aws.APIError\<close> it belongs to the SDK, outside this repository: it returns the code, a colon
  and a space, and the message (so \<^verbatim>\<open>: Forbidden\<close> for an empty code).
\<close>

fun Error :: "error \<Rightarrow> string" where
  "Error (APIError sc c m) = c @ '': '' @ m"
| "Error (errorString s) = s"

text \<open>The test \<^verbatim>\<open>awsError, ok := err.(aws.APIError); ok && awsError.StatusCode == 404\<close>.\<close>

fun isNotFound :: "error \<Rightarrow> bool" where
  "isNotFound (APIError sc c m) = (sc = 404)"
| "isNotFound (errorString s) = False"

subsection \<open>The resource record\<close>

text \<open>
  \<^verbatim>\<open>schema.ResourceData\<close> restricted to what the schema of this resource declares: the
  resource id (\<^verbatim>\<open>d.Id()\<close>, \<^verbatim>\<open>d.SetId\<close>) and the six fields read with \<^verbatim>\<open>d.Get\<close>.
\<close>

record ResourceData =
  ID :: string
  bucket :: string
  acl :: string
  website :: bool
  index_document :: string
  error_document :: string
  tags :: "string \<rightharpoonup> string"

definition SetId :: "string \<Rightarrow> ResourceData \<Rightarrow> ResourceData" where
  "SetId v d = d\<lparr>ID := v\<rparr>"

subsection \<open>Requests to the S3 service\<close>

text \<open>
  \<^verbatim>\<open>s3.WebsiteConfiguration\<close>: each part is a pointer, nil (\<open>None\<close>) until it is set;
  \<open>IndexDocument\<close> holds the suffix and \<open>ErrorDocument\<close> the key.
\<close>

record WebsiteConfiguration =
  IndexDocument :: "string option"
  ErrorDocument :: "string option"

text \<open>
  The five request types the file builds. \<open>CreateBucketConfiguration\<close> is nil (\<open>None\<close>) or
  a configuration holding the location constraint.
\<close>

datatype request =
    CreateBucket (Bucket: string) (ACL: string) (CreateBucketConfiguration: "string option")
  | HeadBucket (Bucket: string)
  | DeleteBucket (Bucket: string)
  | PutBucketWebsite (Bucket: string) (WebsiteConfiguration: WebsiteConfiguration)
  | DeleteBucketWebsite (Bucket: string)

type_synonym Tag = "string \<times> string"

text \<open>
  Every call that leaves the file, in the order it is made: a request to the S3 service,
  a call of \<^verbatim>\<open>setTagsS3\<close> with the record, a call of \<^verbatim>\<open>getTagSetS3\<close> with a bucket name.
\<close>

datatype call = S3 request | SetTagsS3 ResourceData | GetTagSetS3 string

text \<open>The world outside the process: the state of the remote service and the log of calls.\<close>

record 'r world =
  remote :: 'r
  calls :: "call list"

text \<open>
  The S3 client answers a request from the remote state and may change it. The file ignores
  every output but the error, so the answer is the error (\<open>None\<close> is Go's nil).
\<close>

type_synonym 'r S3conn = "request \<Rightarrow> 'r \<Rightarrow> error option \<times> 'r"

record 'r AWSClient =
  s3conn :: "'r S3conn"
  region :: string

text \<open>
  Modelled from the spec: the tag helpers \<^verbatim>\<open>setTagsS3\<close>, \<^verbatim>\<open>getTagSetS3\<close> and \<^verbatim>\<open>tagsToMapS3\<close>
  and the field accessor's \<^verbatim>\<open>d.Set\<close> are used by this file and defined elsewhere. They are
  taken as parameters. \<open>setTagsS3\<close> receives the record by pointer and the connection, so it
  may change both; \<open>getTagSetS3\<close> receives a bucket name and returns a tag list or an error;
  \<open>Set_rejects\<close> decides whether \<^verbatim>\<open>d.Set("tags", v)\<close> returns an error.
\<close>

record 'r helpers =
  setTagsS3 :: "ResourceData \<Rightarrow> 'r \<Rightarrow> error option \<times> ResourceData \<times> 'r"
  getTagSetS3 :: "string \<Rightarrow> 'r \<Rightarrow> (error + Tag list) \<times> 'r"
  tagsToMapS3 :: "Tag list \<Rightarrow> (string \<rightharpoonup> string)"
  Set_rejects :: "(string \<rightharpoonup> string) \<Rightarrow> error option"

text \<open>
  Modelled from the spec: the field accessor's \<^verbatim>\<open>set(fieldName, value)\<close> for the observed
  tags. It writes the field \<open>tags\<close> and nothing else; when it returns an error nothing is
  written.
\<close>

definition Set_tags ::
  "'r helpers \<Rightarrow> (string \<rightharpoonup> string) \<Rightarrow> ResourceData \<Rightarrow> error option \<times> ResourceData" where
  "Set_tags h v d =
     (case Set_rejects h v of
        Some e \<Rightarrow> (Some e, d)
      | None \<Rightarrow> (None, d\<lparr>tags := v\<rparr>))"

subsection \<open>Calls, logged\<close>

definition s3call :: "'r S3conn \<Rightarrow> request \<Rightarrow> 'r world \<Rightarrow> error option \<times> 'r world" where
  "s3call conn req w =
     (let (err, r) = conn req (remote w)
      in (err, \<lparr>remote = r, calls = calls w @ [S3 req]\<rparr>))"

definition call_setTagsS3 ::
  "'r helpers \<Rightarrow> ResourceData \<Rightarrow> 'r world \<Rightarrow> error option \<times> ResourceData \<times> 'r world" where
  "call_setTagsS3 h d w =
     (let (err, d1, r) = setTagsS3 h d (remote w)
      in (err, d1, \<lparr>remote = r, calls = calls w @ [SetTagsS3 d]\<rparr>))"

definition call_getTagSetS3 ::
  "'r helpers \<Rightarrow> string \<Rightarrow> 'r world \<Rightarrow> (error + Tag list) \<times> 'r world" where
  "call_getTagSetS3 h b w =
     (let (res, r) = getTagSetS3 h b (remote w)
      in (res, \<lparr>remote = r, calls = calls w @ [GetTagSetS3 b]\<rparr>))"

subsection \<open>The website reconciler\<close>

definition updateWebsite ::
  "'r S3conn \<Rightarrow> ResourceData \<Rightarrow> 'r world \<Rightarrow> error option \<times> 'r world" where
  "updateWebsite conn d w =
     (let website = website d;
          bucket = bucket d;
          indexDocument = index_document d;
          errorDocument = error_document d
      in if website then
           let websiteConfiguration = \<lparr>IndexDocument = None, ErrorDocument = None\<rparr>;
               websiteConfiguration =
                 (if indexDocument \<noteq> [] then websiteConfiguration\<lparr>IndexDocument := Some indexDocument\<rparr>
                  else websiteConfiguration);
               websiteConfiguration =
                 (if errorDocument \<noteq> [] then websiteConfiguration\<lparr>ErrorDocument := Some errorDocument\<rparr>
                  else websiteConfiguration);
               putInput = PutBucketWebsite bucket websiteConfiguration;
               (err, w1) = s3call conn putInput w
           in (case err of
                 Some e \<Rightarrow> (Some (errorString (''Error putting S3 website: '' @ Error e)), w1)
               | None \<Rightarrow> (None, w1))
         else
           let deleteInput = DeleteBucketWebsite bucket;
               (err, w1) = s3call conn deleteInput w
           in (case err of
                 Some e \<Rightarrow> (Some (errorString (''Error deleting S3 website: '' @ Error e)), w1)
               | None \<Rightarrow> (None, w1)))"

subsection \<open>Read, Update, Create, Delete\<close>

text \<open>
  Every lifecycle function returns the error (\<open>None\<close> for nil), the record as the function
  left it, and the world.
\<close>

definition resourceAwsS3BucketRead ::
  "'r helpers \<Rightarrow> 'r AWSClient \<Rightarrow> ResourceData \<Rightarrow> 'r world
     \<Rightarrow> error option \<times> ResourceData \<times> 'r world" where
  "resourceAwsS3BucketRead h meta d w =
     (let conn = s3conn meta;
          (err, w1) = s3call conn (HeadBucket (ID d)) w;
          (ret, d1) =
            (case err of
               None \<Rightarrow> (None, d)
             | Some e \<Rightarrow>
                 if isNotFound e then (None, SetId [] d)
                 else (Some (errorString
                         (''error reading S3 bucket '' @ [CHR 0x22] @ ID d @ [CHR 0x22] @ '': '' @ Error e)), d))
      in case ret of
           Some e \<Rightarrow> (Some e, d1, w1)
         | None \<Rightarrow>
             let (res, w2) = call_getTagSetS3 h (ID d1) w1
             in (case res of
                   Inl e \<Rightarrow> (Some e, d1, w2)
                 | Inr tagSet \<Rightarrow>
                     let (err, d2) = Set_tags h (tagsToMapS3 h tagSet) d1
                     in (case err of
                           Some e \<Rightarrow> (Some e, d2, w2)
                         | None \<Rightarrow> (None, d2, w2))))"

definition resourceAwsS3BucketUpdate ::
  "'r helpers \<Rightarrow> 'r AWSClient \<Rightarrow> ResourceData \<Rightarrow> 'r world
     \<Rightarrow> error option \<times> ResourceData \<times> 'r world" where
  "resourceAwsS3BucketUpdate h meta d w =
     (let conn = s3conn meta;
          (err, d1, w1) = call_setTagsS3 h d w
      in case err of
           Some e \<Rightarrow> (Some e, d1, w1)
         | None \<Rightarrow>
             let (err, w2) = updateWebsite conn d1 w1
             in (case err of
                   Some e \<Rightarrow> (Some e, d1, w2)
                 | None \<Rightarrow> resourceAwsS3BucketRead h meta d1 w2))"

definition resourceAwsS3BucketCreate ::
  "'r helpers \<Rightarrow> 'r AWSClient \<Rightarrow> ResourceData \<Rightarrow> 'r world
     \<Rightarrow> error option \<times> ResourceData \<times> 'r world" where
  "resourceAwsS3BucketCreate h meta d w =
     (let conn = s3conn meta;
          awsRegion = region meta;
          bucket = bucket d;
          acl = acl d;
          req = CreateBucket bucket acl None;
          req = (if awsRegion \<noteq> ''us-east-1''
                 then CreateBucket (Bucket req) (ACL req) (Some awsRegion)
                 else req);
          (err, w1) = s3call conn req w
      in case err of
           Some e \<Rightarrow> (Some (errorString (''Error creating S3 bucket: '' @ Error e)), d, w1)
         | None \<Rightarrow> resourceAwsS3BucketUpdate h meta (SetId bucket d) w1)"

definition resourceAwsS3BucketDelete ::
  "'r AWSClient \<Rightarrow> ResourceData \<Rightarrow> 'r world \<Rightarrow> error option \<times> ResourceData \<times> 'r world" where
  "resourceAwsS3BucketDelete meta d w =
     (let conn = s3conn meta;
          (err, w1) = s3call conn (DeleteBucket (ID d)) w
      in case err of
           Some e \<Rightarrow> (Some e, d, w1)
         | None \<Rightarrow> (None, d, w1))"

subsection \<open>Concrete collaborators\<close>

text \<open>
  Small remote services and helpers on which the definitions can be run. The remote state
  is the number of calls served so far.
\<close>

definition conn_ok :: "nat S3conn" where
  "conn_ok req r = (None, Suc r)"

definition conn_failing :: "nat S3conn" where
  "conn_failing req r = (Some (APIError 409 ''BucketAlreadyExists'' ''taken''), Suc r)"

definition conn_not_found :: "nat S3conn" where
  "conn_not_found req r =
     (case req of
        HeadBucket b \<Rightarrow> (Some (APIError 404 ''NotFound'' ''Not Found''), Suc r)
      | _ \<Rightarrow> (None, Suc r))"

definition conn_forbidden :: "nat S3conn" where
  "conn_forbidden req r =
     (case req of
        HeadBucket b \<Rightarrow> (Some (APIError 403 [] ''Forbidden''), Suc r)
      | _ \<Rightarrow> (None, Suc r))"

definition conn_website_failing :: "nat S3conn" where
  "conn_website_failing req r =
     (case req of
        PutBucketWebsite b c \<Rightarrow> (Some (errorString ''no website''), Suc r)
      | DeleteBucketWebsite b \<Rightarrow> (Some (errorString ''no website''), Suc r)
      | _ \<Rightarrow> (None, Suc r))"

definition helpers_ok :: "nat helpers" where
  "helpers_ok =
     \<lparr>setTagsS3 = (\<lambda>d r. (None, d, Suc r)),
      getTagSetS3 = (\<lambda>b r. (Inr [(''env'', ''prod'')], Suc r)),
      tagsToMapS3 = (\<lambda>ts. map_of (rev ts)),
      Set_rejects = (\<lambda>v. None)\<rparr>"

definition helpers_tags_failing :: "nat helpers" where
  "helpers_tags_failing =
     \<lparr>setTagsS3 = (\<lambda>d r. (Some (errorString ''tags refused''), d, Suc r)),
      getTagSetS3 = (\<lambda>b r. (Inl (errorString ''tags unavailable''), Suc r)),
      tagsToMapS3 = (\<lambda>ts. map_of (rev ts)),
      Set_rejects = (\<lambda>v. None)\<rparr>"

definition b1 :: ResourceData where
  "b1 =
     \<lparr>ID = ''b1'', bucket = ''b1'', acl = ''private'', website = True,
      index_document = ''index.html'', error_document = [], tags = [''env'' \<mapsto> ''prod'']\<rparr>"

definition b1_new :: ResourceData where
  "b1_new = b1\<lparr>ID := []\<rparr>"

definition w0 :: "nat world" where
  "w0 = \<lparr>remote = 0, calls = []\<rparr>"

definition w7 :: "nat world" where
  "w7 = \<lparr>remote = 7, calls = [S3 (HeadBucket ''b0'')]\<rparr>"

section \<open>Properties\<close>

subsection \<open>What one logged call does\<close>

lemma s3call_eq:
  "s3call conn req w =
     (fst (conn req (remote w)),
      \<lparr>remote = snd (conn req (remote w)), calls = calls w @ [S3 req]\<rparr>)"
  by (simp add: s3call_def split: prod.split)

lemma call_getTagSetS3_eq:
  "call_getTagSetS3 h b w =
     (fst (getTagSetS3 h b (remote w)),
      \<lparr>remote = snd (getTagSetS3 h b (remote w)), calls = calls w @ [GetTagSetS3 b]\<rparr>)"
  by (simp add: call_getTagSetS3_def split: prod.split)

lemma call_setTagsS3_eq:
  "call_setTagsS3 h d w =
     (fst (setTagsS3 h d (remote w)), fst (snd (setTagsS3 h d (remote w))),
      \<lparr>remote = snd (snd (setTagsS3 h d (remote w))), calls = calls w @ [SetTagsS3 d]\<rparr>)"
  by (simp add: call_setTagsS3_def split: prod.split)

subsection \<open>The calls each function makes\<close>

lemma Delete_eq:
  "resourceAwsS3BucketDelete meta d w =
     (fst (s3conn meta (DeleteBucket (ID d)) (remote w)), d,
      \<lparr>remote = snd (s3conn meta (DeleteBucket (ID d)) (remote w)),
       calls = calls w @ [S3 (DeleteBucket (ID d))]\<rparr>)"
  by (simp add: resourceAwsS3BucketDelete_def s3call_eq Let_def split: option.split)

lemma updateWebsite_world:
  "snd (updateWebsite conn d w) =
     (let req = (if website d
                 then PutBucketWebsite (bucket d)
                        \<lparr>IndexDocument = (if index_document d = [] then None else Some (index_document d)),
                         ErrorDocument = (if error_document d = [] then None else Some (error_document d))\<rparr>
                 else DeleteBucketWebsite (bucket d))
      in \<lparr>remote = snd (conn req (remote w)), calls = calls w @ [S3 req]\<rparr>)"
  by (simp add: updateWebsite_def s3call_eq Let_def split: option.split)

lemma updateWebsite_error:
  "fst (updateWebsite conn d w) =
     (let req = (if website d
                 then PutBucketWebsite (bucket d)
                        \<lparr>IndexDocument = (if index_document d = [] then None else Some (index_document d)),
                         ErrorDocument = (if error_document d = [] then None else Some (error_document d))\<rparr>
                 else DeleteBucketWebsite (bucket d))
      in case fst (conn req (remote w)) of
           None \<Rightarrow> None
         | Some e \<Rightarrow>
             Some (errorString
               ((if website d then ''Error putting S3 website: '' else ''Error deleting S3 website: '')
                  @ Error e)))"
  by (simp add: updateWebsite_def s3call_eq Let_def split: option.split)

lemma Read_calls:
  "\<exists>rest. calls (snd (snd (resourceAwsS3BucketRead h meta d w))) =
            calls w @ S3 (HeadBucket (ID d)) # rest \<and>
          (\<forall>c \<in> set rest. \<exists>b. c = GetTagSetS3 b)"
  by (simp add: resourceAwsS3BucketRead_def s3call_eq call_getTagSetS3_eq Set_tags_def Let_def
        split: option.split sum.split prod.split)

lemma Update_calls:
  "\<exists>rest. calls (snd (snd (resourceAwsS3BucketUpdate h meta d w))) =
            calls w @ SetTagsS3 d # rest \<and>
          (\<forall>b a l. S3 (CreateBucket b a l) \<notin> set rest)"
proof (cases "fst (setTagsS3 h d (remote w))")
  case (Some e)
  then show ?thesis
    by (simp add: resourceAwsS3BucketUpdate_def call_setTagsS3_eq Let_def)
next
  case None
  let ?d1 = "fst (snd (setTagsS3 h d (remote w)))"
  let ?w1 = "\<lparr>remote = snd (snd (setTagsS3 h d (remote w))), calls = calls w @ [SetTagsS3 d]\<rparr>"
  obtain e2 w2 where uw: "updateWebsite (s3conn meta) ?d1 ?w1 = (e2, w2)"
    by (cases "updateWebsite (s3conn meta) ?d1 ?w1")
  have w2: "\<exists>req. calls w2 = calls w @ [SetTagsS3 d, S3 req] \<and> (\<forall>b a l. req \<noteq> CreateBucket b a l)"
    using updateWebsite_world [of "s3conn meta" ?d1 ?w1] uw by (auto simp: Let_def)
  show ?thesis
  proof (cases e2)
    case (Some e)
    with None uw w2 show ?thesis
      by (auto simp add: resourceAwsS3BucketUpdate_def call_setTagsS3_eq Let_def)
  next
    case n2: None
    from Read_calls [of h meta ?d1 w2] w2 None uw n2 show ?thesis
      by (auto simp add: resourceAwsS3BucketUpdate_def call_setTagsS3_eq Let_def)
  qed
qed

lemma Create_fail_eq:
  "s3conn meta (CreateBucket (bucket d) (acl d)
       (if region meta = ''us-east-1'' then None else Some (region meta))) (remote w) = (Some e, r1)
   \<Longrightarrow> resourceAwsS3BucketCreate h meta d w =
         (Some (errorString (''Error creating S3 bucket: '' @ Error e)), d,
          \<lparr>remote = r1,
           calls = calls w @ [S3 (CreateBucket (bucket d) (acl d)
                     (if region meta = ''us-east-1'' then None else Some (region meta)))]\<rparr>)"
  by (cases "region meta = ''us-east-1''")
     (simp_all add: resourceAwsS3BucketCreate_def s3call_eq Let_def)

lemma Create_ok_eq:
  "s3conn meta (CreateBucket (bucket d) (acl d)
       (if region meta = ''us-east-1'' then None else Some (region meta))) (remote w) = (None, r1)
   \<Longrightarrow> resourceAwsS3BucketCreate h meta d w =
         resourceAwsS3BucketUpdate h meta (d\<lparr>ID := bucket d\<rparr>)
          \<lparr>remote = r1,
           calls = calls w @ [S3 (CreateBucket (bucket d) (acl d)
                     (if region meta = ''us-east-1'' then None else Some (region meta)))]\<rparr>"
  by (cases "region meta = ''us-east-1''")
     (simp_all add: resourceAwsS3BucketCreate_def s3call_eq Let_def SetId_def)

lemma Create_calls:
  "\<exists>rest. calls (snd (snd (resourceAwsS3BucketCreate h meta d w))) =
            calls w @ S3 (CreateBucket (bucket d) (acl d)
                 (if region meta = ''us-east-1'' then None else Some (region meta))) # rest \<and>
          (\<forall>b a l. S3 (CreateBucket b a l) \<notin> set rest)"
proof -
  let ?req = "CreateBucket (bucket d) (acl d)
                 (if region meta = ''us-east-1'' then None else Some (region meta))"
  obtain e r1 where c: "s3conn meta ?req (remote w) = (e, r1)"
    by (cases "s3conn meta ?req (remote w)")
  show ?thesis
  proof (cases e)
    case None
    with c have "resourceAwsS3BucketCreate h meta d w =
         resourceAwsS3BucketUpdate h meta (d\<lparr>ID := bucket d\<rparr>)
          \<lparr>remote = r1, calls = calls w @ [S3 ?req]\<rparr>"
      by (simp add: Create_ok_eq)
    with Update_calls [of h meta "d\<lparr>ID := bucket d\<rparr>" "\<lparr>remote = r1, calls = calls w @ [S3 ?req]\<rparr>"]
    show ?thesis by auto
  next
    case (Some x)
    with c show ?thesis by (simp add: Create_fail_eq)
  qed
qed

subsection \<open>Delete\<close>

text \<open>
  Claim C7. Delete issues exactly one request, \<open>DeleteBucket\<close> with the identity: the log grows
  by that one call. What the service answers is what Delete returns, an error unchanged and
  nil when the service succeeds, and the record (so also the identity) is returned as it
  was received.
\<close>

theorem Delete_one_request_verbatim:
  "resourceAwsS3BucketDelete meta d w =
     (fst (s3conn meta (DeleteBucket (ID d)) (remote w)), d,
      \<lparr>remote = snd (s3conn meta (DeleteBucket (ID d)) (remote w)),
       calls = calls w @ [S3 (DeleteBucket (ID d))]\<rparr>)"
  by (rule Delete_eq)

theorem Delete_one_request_verbatim_witness:
  "resourceAwsS3BucketDelete \<lparr>s3conn = conn_failing, region = ''us-east-1''\<rparr> b1 w7 =
     (Some (APIError 409 ''BucketAlreadyExists'' ''taken''), b1,
      \<lparr>remote = 8, calls = [S3 (HeadBucket ''b0''), S3 (DeleteBucket ''b1'')]\<rparr>)"
  using Delete_one_request_verbatim [of "\<lparr>s3conn = conn_failing, region = ''us-east-1''\<rparr>" b1 w7]
  by (simp add: conn_failing_def w7_def b1_def)

subsection \<open>Create\<close>

text \<open>
  Claim C2. The first call of Create is the \<open>CreateBucket\<close> request, with the record's bucket
  name and ACL, and it is the only \<open>CreateBucket\<close> request of the call. Its location
  constraint is absent when the configured region is \<open>us-east-1\<close> and is the configured
  region string otherwise.
\<close>

theorem Create_location_constraint:
  "\<exists>rest. calls (snd (snd (resourceAwsS3BucketCreate h meta d w))) =
            calls w @ S3 (CreateBucket (bucket d) (acl d)
                 (if region meta = ''us-east-1'' then None else Some (region meta))) # rest \<and>
          (\<forall>b a l. S3 (CreateBucket b a l) \<notin> set rest)"
  by (rule Create_calls)

theorem Create_location_constraint_witness:
  "(\<exists>rest. calls (snd (snd (resourceAwsS3BucketCreate helpers_ok
               \<lparr>s3conn = conn_ok, region = ''us-east-1''\<rparr> b1_new w0))) =
             S3 (CreateBucket ''b1'' ''private'' None) # rest \<and>
           (\<forall>b a l. S3 (CreateBucket b a l) \<notin> set rest)) \<and>
   (\<exists>rest. calls (snd (snd (resourceAwsS3BucketCreate helpers_ok
               \<lparr>s3conn = conn_ok, region = ''eu-west-1''\<rparr> b1_new w0))) =
             S3 (CreateBucket ''b1'' ''private'' (Some ''eu-west-1'')) # rest \<and>
           (\<forall>b a l. S3 (CreateBucket b a l) \<notin> set rest))"
  using Create_location_constraint
          [of helpers_ok "\<lparr>s3conn = conn_ok, region = ''us-east-1''\<rparr>" b1_new w0]
        Create_location_constraint
          [of helpers_ok "\<lparr>s3conn = conn_ok, region = ''eu-west-1''\<rparr>" b1_new w0]
  by (simp add: b1_new_def b1_def w0_def)

text \<open>
  Claim C5. When the \<open>CreateBucket\<close> request succeeds, Create sets the identity to the bucket
  name of the record and calls Update on that record, in the world the request left: what
  Create returns is what that Update returns.
\<close>

theorem Create_success_sets_id_then_Update:
  assumes "s3conn meta (CreateBucket (bucket d) (acl d)
       (if region meta = ''us-east-1'' then None else Some (region meta))) (remote w) = (None, r1)"
  shows "resourceAwsS3BucketCreate h meta d w =
         resourceAwsS3BucketUpdate h meta (d\<lparr>ID := bucket d\<rparr>)
          \<lparr>remote = r1,
           calls = calls w @ [S3 (CreateBucket (bucket d) (acl d)
                     (if region meta = ''us-east-1'' then None else Some (region meta)))]\<rparr>"
  using assms by (rule Create_ok_eq)

theorem Create_success_sets_id_then_Update_witness:
  "conn_ok (CreateBucket ''b1'' ''private'' (Some ''eu-west-1'')) 0 = (None, 1) \<and>
   resourceAwsS3BucketCreate helpers_ok \<lparr>s3conn = conn_ok, region = ''eu-west-1''\<rparr> b1_new w0 =
     resourceAwsS3BucketUpdate helpers_ok \<lparr>s3conn = conn_ok, region = ''eu-west-1''\<rparr>
       (b1_new\<lparr>ID := ''b1''\<rparr>)
       \<lparr>remote = 1, calls = [S3 (CreateBucket ''b1'' ''private'' (Some ''eu-west-1''))]\<rparr>"
  using Create_success_sets_id_then_Update
          [of "\<lparr>s3conn = conn_ok, region = ''eu-west-1''\<rparr>" b1_new w0 1 helpers_ok]
  by (simp add: conn_ok_def b1_new_def b1_def w0_def)

text \<open>
  Claim C6, as the code has it. When the \<open>CreateBucket\<close> request fails, Create returns a new
  error whose message is \<open>Error creating S3 bucket: \<close> followed by the text of the cause:
  Create adds nothing but that prefix to it. The record is returned as it was received, so
  no identity is assigned, and no further call is made.
\<close>

theorem Create_failure_error:
  assumes "s3conn meta (CreateBucket (bucket d) (acl d)
       (if region meta = ''us-east-1'' then None else Some (region meta))) (remote w) = (Some e, r1)"
  shows "resourceAwsS3BucketCreate h meta d w =
         (Some (errorString (''Error creating S3 bucket: '' @ Error e)), d,
          \<lparr>remote = r1,
           calls = calls w @ [S3 (CreateBucket (bucket d) (acl d)
                     (if region meta = ''us-east-1'' then None else Some (region meta)))]\<rparr>)"
  using assms by (rule Create_fail_eq)

theorem Create_failure_error_witness:
  "conn_failing (CreateBucket ''b1'' ''private'' None) 0 =
     (Some (APIError 409 ''BucketAlreadyExists'' ''taken''), 1) \<and>
   resourceAwsS3BucketCreate helpers_ok \<lparr>s3conn = conn_failing, region = ''us-east-1''\<rparr> b1_new w0 =
     (Some (errorString ''Error creating S3 bucket: BucketAlreadyExists: taken''), b1_new,
      \<lparr>remote = 1, calls = [S3 (CreateBucket ''b1'' ''private'' None)]\<rparr>)"
  using Create_failure_error
          [of "\<lparr>s3conn = conn_failing, region = ''us-east-1''\<rparr>" b1_new w0
              "APIError 409 ''BucketAlreadyExists'' ''taken''" 1
              helpers_ok]
  by (simp add: conn_failing_def b1_new_def b1_def w0_def)

text \<open>
  The claim as the spec states it fails: the service refuses to create bucket \<open>b1\<close> with the
  code \<open>BucketAlreadyExists\<close> and the message \<open>taken\<close>, and the error Create returns does
  not contain the bucket name.
\<close>

theorem Create_failure_error_counterexample:
  "fst (resourceAwsS3BucketCreate helpers_ok \<lparr>s3conn = conn_failing, region = ''us-east-1''\<rparr> b1_new w0)
     = Some (errorString ''Error creating S3 bucket: BucketAlreadyExists: taken'') \<and>
   bucket b1_new = ''b1'' \<and>
   \<not> sublist (bucket b1_new)
       (Error (the (fst (resourceAwsS3BucketCreate helpers_ok
                           \<lparr>s3conn = conn_failing, region = ''us-east-1''\<rparr> b1_new w0))))"
  by (simp add: resourceAwsS3BucketCreate_def s3call_eq Let_def conn_failing_def b1_new_def b1_def w0_def
        sublist_Cons_right)

subsection \<open>The website reconciler\<close>

text \<open>
  Claim C4. \<open>updateWebsite\<close> issues exactly one request, and which one is decided by the three
  fields \<open>website\<close>, \<open>index_document\<close> and \<open>error_document\<close> alone (the bucket name only
  addresses it; neither the remote state nor the connection enters): with \<open>website\<close> set, a
  \<open>PutBucketWebsite\<close> whose configuration has the index suffix exactly when \<open>index_document\<close>
  is not empty and the error key exactly when \<open>error_document\<close> is not empty; otherwise a
  \<open>DeleteBucketWebsite\<close>. An error of the service comes back under the operation's prefix.
\<close>

theorem updateWebsite_one_request:
  "updateWebsite conn d w =
     (let req = (if website d
                 then PutBucketWebsite (bucket d)
                        \<lparr>IndexDocument = (if index_document d = [] then None else Some (index_document d)),
                         ErrorDocument = (if error_document d = [] then None else Some (error_document d))\<rparr>
                 else DeleteBucketWebsite (bucket d))
      in (case fst (conn req (remote w)) of
            None \<Rightarrow> None
          | Some e \<Rightarrow>
              Some (errorString
                ((if website d then ''Error putting S3 website: '' else ''Error deleting S3 website: '')
                   @ Error e)),
          \<lparr>remote = snd (conn req (remote w)), calls = calls w @ [S3 req]\<rparr>))"
  using updateWebsite_world [of conn d w] updateWebsite_error [of conn d w]
  by (simp add: prod_eq_iff Let_def)

theorem updateWebsite_one_request_witness:
  "updateWebsite conn_ok b1 w0 =
     (None, \<lparr>remote = 1,
             calls = [S3 (PutBucketWebsite ''b1''
                       \<lparr>IndexDocument = Some ''index.html'', ErrorDocument = None\<rparr>)]\<rparr>) \<and>
   updateWebsite conn_ok (b1\<lparr>index_document := [], error_document := ''404.html''\<rparr>) w0 =
     (None, \<lparr>remote = 1,
             calls = [S3 (PutBucketWebsite ''b1''
                       \<lparr>IndexDocument = None, ErrorDocument = Some ''404.html''\<rparr>)]\<rparr>) \<and>
   updateWebsite conn_ok (b1\<lparr>index_document := []\<rparr>) w0 =
     (None, \<lparr>remote = 1,
             calls = [S3 (PutBucketWebsite ''b1''
                       \<lparr>IndexDocument = None, ErrorDocument = None\<rparr>)]\<rparr>) \<and>
   updateWebsite conn_website_failing (b1\<lparr>website := False\<rparr>) w7 =
     (Some (errorString ''Error deleting S3 website: no website''),
      \<lparr>remote = 8, calls = [S3 (HeadBucket ''b0''), S3 (DeleteBucketWebsite ''b1'')]\<rparr>)"
  using updateWebsite_one_request [of conn_ok b1 w0]
        updateWebsite_one_request [of conn_ok "b1\<lparr>index_document := [], error_document := ''404.html''\<rparr>" w0]
        updateWebsite_one_request [of conn_ok "b1\<lparr>index_document := []\<rparr>" w0]
        updateWebsite_one_request [of conn_website_failing "b1\<lparr>website := False\<rparr>" w7]
  by (simp add: conn_ok_def conn_website_failing_def b1_def w0_def w7_def Let_def)

subsection \<open>Read\<close>

lemma Read_not_found_eq:
  assumes "s3conn meta (HeadBucket (ID d)) (remote w) = (Some e, r1)" and "isNotFound e"
  shows "resourceAwsS3BucketRead h meta d w =
     (let w2 = \<lparr>remote = snd (getTagSetS3 h [] r1),
                calls = calls w @ [S3 (HeadBucket (ID d)), GetTagSetS3 []]\<rparr>
      in case fst (getTagSetS3 h [] r1) of
           Inl x \<Rightarrow> (Some x, d\<lparr>ID := []\<rparr>, w2)
         | Inr ts \<Rightarrow>
             (case Set_rejects h (tagsToMapS3 h ts) of
                Some x \<Rightarrow> (Some x, d\<lparr>ID := []\<rparr>, w2)
              | None \<Rightarrow> (None, d\<lparr>ID := [], tags := tagsToMapS3 h ts\<rparr>, w2)))"
  using assms
  by (simp add: resourceAwsS3BucketRead_def s3call_eq call_getTagSetS3_eq Set_tags_def SetId_def
        Let_def split: sum.split option.split)

lemma Read_other_error_eq:
  assumes "s3conn meta (HeadBucket (ID d)) (remote w) = (Some e, r1)" and "\<not> isNotFound e"
  shows "resourceAwsS3BucketRead h meta d w =
     (Some (errorString
        (''error reading S3 bucket '' @ [CHR 0x22] @ ID d @ [CHR 0x22] @ '': '' @ Error e)),
      d, \<lparr>remote = r1, calls = calls w @ [S3 (HeadBucket (ID d))]\<rparr>)"
  using assms
  by (simp add: resourceAwsS3BucketRead_def s3call_eq Let_def)

lemma isNotFound_iff: "isNotFound e = (\<exists>c m. e = APIError 404 c m)"
  by (cases e) auto

lemma Read_record:
  "fst (snd (resourceAwsS3BucketRead h meta d w)) =
     d\<lparr>ID := ID (fst (snd (resourceAwsS3BucketRead h meta d w))),
       tags := tags (fst (snd (resourceAwsS3BucketRead h meta d w)))\<rparr>"
  by (simp add: resourceAwsS3BucketRead_def s3call_eq call_getTagSetS3_eq Set_tags_def SetId_def
        Let_def split: sum.split option.split)

lemma Read_ID:
  "ID (fst (snd (resourceAwsS3BucketRead h meta d w))) =
     (case fst (s3conn meta (HeadBucket (ID d)) (remote w)) of
        None \<Rightarrow> ID d
      | Some e \<Rightarrow> if isNotFound e then [] else ID d)"
  by (simp add: resourceAwsS3BucketRead_def s3call_eq call_getTagSetS3_eq Set_tags_def SetId_def
        Let_def split: sum.split option.split)

lemma Read_outcome:
  "fst (resourceAwsS3BucketRead h meta d w) =
     (case fst (s3conn meta (HeadBucket (ID d)) (remote w)) of
        None \<Rightarrow>
          (case fst (getTagSetS3 h (ID d) (snd (s3conn meta (HeadBucket (ID d)) (remote w)))) of
             Inl x \<Rightarrow> Some x
           | Inr ts \<Rightarrow> Set_rejects h (tagsToMapS3 h ts))
      | Some e \<Rightarrow>
          if isNotFound e
          then (case fst (getTagSetS3 h [] (snd (s3conn meta (HeadBucket (ID d)) (remote w)))) of
                  Inl x \<Rightarrow> Some x
                | Inr ts \<Rightarrow> Set_rejects h (tagsToMapS3 h ts))
          else Some (errorString
                 (''error reading S3 bucket '' @ [CHR 0x22] @ ID d @ [CHR 0x22] @ '': '' @ Error e)))"
  by (simp add: resourceAwsS3BucketRead_def s3call_eq call_getTagSetS3_eq Set_tags_def SetId_def
        Let_def split: sum.split option.split)

lemma Read_tags:
  "tags (fst (snd (resourceAwsS3BucketRead h meta d w))) =
     (case fst (resourceAwsS3BucketRead h meta d w) of
        Some x \<Rightarrow> tags d
      | None \<Rightarrow>
          (case fst (getTagSetS3 h (ID (fst (snd (resourceAwsS3BucketRead h meta d w))))
                       (snd (s3conn meta (HeadBucket (ID d)) (remote w)))) of
             Inl x \<Rightarrow> tags d
           | Inr ts \<Rightarrow> tagsToMapS3 h ts))"
  by (simp add: resourceAwsS3BucketRead_def s3call_eq call_getTagSetS3_eq Set_tags_def SetId_def
        Let_def split: sum.split option.split)

lemma Read_responses:
  assumes "fst (s3conn meta (HeadBucket (ID d)) (remote w)) =
           fst (s3conn meta (HeadBucket (ID d)) (remote w'))"
    and "fst (getTagSetS3 h
               (case fst (s3conn meta (HeadBucket (ID d)) (remote w)) of
                  None \<Rightarrow> ID d
                | Some e \<Rightarrow> if isNotFound e then [] else ID d)
               (snd (s3conn meta (HeadBucket (ID d)) (remote w)))) =
         fst (getTagSetS3 h
               (case fst (s3conn meta (HeadBucket (ID d)) (remote w)) of
                  None \<Rightarrow> ID d
                | Some e \<Rightarrow> if isNotFound e then [] else ID d)
               (snd (s3conn meta (HeadBucket (ID d)) (remote w'))))"
  shows "fst (resourceAwsS3BucketRead h meta d w) = fst (resourceAwsS3BucketRead h meta d w') \<and>
         fst (snd (resourceAwsS3BucketRead h meta d w)) =
         fst (snd (resourceAwsS3BucketRead h meta d w'))"
proof -
  let ?R = "resourceAwsS3BucketRead h meta d w"
  let ?R' = "resourceAwsS3BucketRead h meta d w'"
  let ?r = "snd (s3conn meta (HeadBucket (ID d)) (remote w))"
  let ?r' = "snd (s3conn meta (HeadBucket (ID d)) (remote w'))"
  have i: "ID (fst (snd ?R)) = ID (fst (snd ?R'))"
    using assms(1) by (simp add: Read_ID)
  have et: "fst ?R = fst ?R' \<and> tags (fst (snd ?R)) = tags (fst (snd ?R'))"
  proof (cases "fst (s3conn meta (HeadBucket (ID d)) (remote w))")
    case None
    then have hd': "fst (s3conn meta (HeadBucket (ID d)) (remote w')) = None"
      using assms(1) by simp
    have tg: "fst (getTagSetS3 h (ID d) ?r) = fst (getTagSetS3 h (ID d) ?r')"
      using assms(2) None by simp
    have e: "fst ?R = fst ?R'"
      using None hd' tg by (simp add: Read_outcome)
    have "ID (fst (snd ?R)) = ID d" "ID (fst (snd ?R')) = ID d"
      using None hd' by (simp_all add: Read_ID)
    then show ?thesis
      using e tg by (simp add: Read_tags [of h meta d w] Read_tags [of h meta d w']
                      cong: option.case_cong sum.case_cong)
  next
    case (Some x)
    then have hd': "fst (s3conn meta (HeadBucket (ID d)) (remote w')) = Some x"
      using assms(1) by simp
    show ?thesis
    proof (cases "isNotFound x")
      case True
      have tg: "fst (getTagSetS3 h [] ?r) = fst (getTagSetS3 h [] ?r')"
        using assms(2) Some True by simp
      have e: "fst ?R = fst ?R'"
        using Some hd' tg True by (simp add: Read_outcome)
      have "ID (fst (snd ?R)) = []" "ID (fst (snd ?R')) = []"
        using Some hd' True by (simp_all add: Read_ID)
      then show ?thesis
        using e tg by (simp add: Read_tags [of h meta d w] Read_tags [of h meta d w']
                      cong: option.case_cong sum.case_cong)
    next
      case False
      have e: "fst ?R = fst ?R'" "fst ?R \<noteq> None"
        using Some hd' False by (simp_all add: Read_outcome)
      then show ?thesis
        by (auto simp add: Read_tags [of h meta d w] Read_tags [of h meta d w'])
    qed
  qed
  have "fst (snd ?R) = d\<lparr>ID := ID (fst (snd ?R)), tags := tags (fst (snd ?R))\<rparr>"
    by (rule Read_record)
  also have "\<dots> = d\<lparr>ID := ID (fst (snd ?R')), tags := tags (fst (snd ?R'))\<rparr>"
    using i et by simp
  also have "\<dots> = fst (snd ?R')"
    by (rule Read_record [symmetric])
  finally show ?thesis using et by simp
qed

text \<open>
  Claim C1. A failed existence check is classified in exactly two ways, by whether the error
  is an \<open>APIError\<close> with status code 404. If it is, Read clears the identity and goes on to
  the tag fetch, which is the second and last call it logs; the not-found error itself is
  not returned: the error Read returns is the one of the tag fetch or of the write of the
  tags, and nil when both succeed. If it is any other error, Read stops after the existence
  check and returns a new error whose message holds the identity, in double quotes, and the
  text of the cause as its \<^verbatim>\<open>Error()\<close> method gives it (for an SDK error its code, a colon and
  its message); the record is unchanged.
\<close>

theorem Read_existence_check_classified:
  assumes "s3conn meta (HeadBucket (ID d)) (remote w) = (Some e, r1)"
  shows "((\<exists>c m. e = APIError 404 c m) \<longrightarrow>
            ID (fst (snd (resourceAwsS3BucketRead h meta d w))) = [] \<and>
            (\<exists>b. calls (snd (snd (resourceAwsS3BucketRead h meta d w))) =
                   calls w @ [S3 (HeadBucket (ID d)), GetTagSetS3 b]) \<and>
            fst (resourceAwsS3BucketRead h meta d w) =
              (case fst (getTagSetS3 h [] r1) of
                 Inl x \<Rightarrow> Some x
               | Inr ts \<Rightarrow> Set_rejects h (tagsToMapS3 h ts))) \<and>
         ((\<forall>c m. e \<noteq> APIError 404 c m) \<longrightarrow>
            resourceAwsS3BucketRead h meta d w =
              (Some (errorString
                 (''error reading S3 bucket '' @ [CHR 0x22] @ ID d @ [CHR 0x22] @ '': '' @ Error e)),
               d, \<lparr>remote = r1, calls = calls w @ [S3 (HeadBucket (ID d))]\<rparr>))"
proof (cases "isNotFound e")
  case True
  then have "\<exists>c m. e = APIError 404 c m" by (simp add: isNotFound_iff)
  moreover have "ID (fst (snd (resourceAwsS3BucketRead h meta d w))) = []"
    using assms True by (simp add: Read_ID)
  moreover have "calls (snd (snd (resourceAwsS3BucketRead h meta d w))) =
                   calls w @ [S3 (HeadBucket (ID d)), GetTagSetS3 []]"
    using Read_not_found_eq [OF assms True, of h]
    by (simp add: Let_def split: sum.split option.split)
  moreover have "fst (resourceAwsS3BucketRead h meta d w) =
              (case fst (getTagSetS3 h [] r1) of
                 Inl x \<Rightarrow> Some x
               | Inr ts \<Rightarrow> Set_rejects h (tagsToMapS3 h ts))"
    using assms True by (simp add: Read_outcome)
  ultimately show ?thesis by blast
next
  case False
  then have "\<forall>c m. e \<noteq> APIError 404 c m" by (simp add: isNotFound_iff)
  with Read_other_error_eq [OF assms False, of h] show ?thesis by blast
qed

theorem Read_existence_check_classified_witness:
  "conn_not_found (HeadBucket ''b1'') 0 = (Some (APIError 404 ''NotFound'' ''Not Found''), 1) \<and>
   ID (fst (snd (resourceAwsS3BucketRead helpers_ok
                   \<lparr>s3conn = conn_not_found, region = ''us-east-1''\<rparr> b1 w0))) = [] \<and>
   (\<exists>b. calls (snd (snd (resourceAwsS3BucketRead helpers_ok
                   \<lparr>s3conn = conn_not_found, region = ''us-east-1''\<rparr> b1 w0))) =
          [S3 (HeadBucket ''b1''), GetTagSetS3 b]) \<and>
   fst (resourceAwsS3BucketRead helpers_ok
          \<lparr>s3conn = conn_not_found, region = ''us-east-1''\<rparr> b1 w0) = None \<and>
   conn_forbidden (HeadBucket ''b1'') 0 = (Some (APIError 403 [] ''Forbidden''), 1) \<and>
   resourceAwsS3BucketRead helpers_ok \<lparr>s3conn = conn_forbidden, region = ''us-east-1''\<rparr> b1 w0 =
     (Some (errorString (''error reading S3 bucket '' @ [CHR 0x22] @ ''b1'' @ [CHR 0x22] @ '': : Forbidden'')),
      b1, \<lparr>remote = 1, calls = [S3 (HeadBucket ''b1'')]\<rparr>)"
  using Read_existence_check_classified
          [of "\<lparr>s3conn = conn_not_found, region = ''us-east-1''\<rparr>" b1 w0
              "APIError 404 ''NotFound'' ''Not Found''" 1 helpers_ok]
        Read_existence_check_classified
          [of "\<lparr>s3conn = conn_forbidden, region = ''us-east-1''\<rparr>" b1 w0
              "APIError 403 [] ''Forbidden''" 1 helpers_ok]
  by (simp add: conn_not_found_def conn_forbidden_def helpers_ok_def b1_def w0_def)

text \<open>
  Claim C10. When the existence check answers not-found (an \<open>APIError\<close> with status 404),
  the tag fetch that follows is called with the empty string, the identity Read has just
  cleared: the log shows \<open>getTagSetS3\<close> with the empty name after the \<open>HeadBucket\<close> request
  for the original identity, and the tags Read stores are the ones that call returned. For
  a record that had an identity, no tag fetch addresses that identity.
\<close>

theorem Read_not_found_fetches_tags_of_empty_id:
  assumes "s3conn meta (HeadBucket (ID d)) (remote w) = (Some (APIError 404 c m), r1)"
  shows "resourceAwsS3BucketRead h meta d w =
     (let w2 = \<lparr>remote = snd (getTagSetS3 h [] r1),
                calls = calls w @ [S3 (HeadBucket (ID d)), GetTagSetS3 []]\<rparr>
      in case fst (getTagSetS3 h [] r1) of
           Inl x \<Rightarrow> (Some x, d\<lparr>ID := []\<rparr>, w2)
         | Inr ts \<Rightarrow>
             (case Set_rejects h (tagsToMapS3 h ts) of
                Some x \<Rightarrow> (Some x, d\<lparr>ID := []\<rparr>, w2)
              | None \<Rightarrow> (None, d\<lparr>ID := [], tags := tagsToMapS3 h ts\<rparr>, w2))) \<and>
     (ID d \<noteq> [] \<longrightarrow>
        GetTagSetS3 (ID d) \<notin> set (calls w) \<longrightarrow>
        GetTagSetS3 (ID d) \<notin> set (calls (snd (snd (resourceAwsS3BucketRead h meta d w)))))"
proof -
  have nf: "isNotFound (APIError 404 c m)" by simp
  note eq = Read_not_found_eq [OF assms nf, of h]
  have "calls (snd (snd (resourceAwsS3BucketRead h meta d w))) =
          calls w @ [S3 (HeadBucket (ID d)), GetTagSetS3 []]"
    using eq by (simp add: Let_def split: sum.split option.split)
  then show ?thesis using eq by auto
qed

theorem Read_not_found_fetches_tags_of_empty_id_witness:
  "conn_not_found (HeadBucket ''b1'') 7 = (Some (APIError 404 ''NotFound'' ''Not Found''), 8) \<and>
   ID b1 = ''b1'' \<and>
   GetTagSetS3 ''b1'' \<notin> set (calls w7) \<and>
   resourceAwsS3BucketRead helpers_tags_failing
       \<lparr>s3conn = conn_not_found, region = ''us-east-1''\<rparr> b1 w7 =
     (Some (errorString ''tags unavailable''), b1\<lparr>ID := []\<rparr>,
      \<lparr>remote = 9, calls = [S3 (HeadBucket ''b0''), S3 (HeadBucket ''b1''), GetTagSetS3 []]\<rparr>) \<and>
   GetTagSetS3 ''b1'' \<notin> set (calls (snd (snd (resourceAwsS3BucketRead helpers_tags_failing
       \<lparr>s3conn = conn_not_found, region = ''us-east-1''\<rparr> b1 w7))))"
  using Read_not_found_fetches_tags_of_empty_id
          [of "\<lparr>s3conn = conn_not_found, region = ''us-east-1''\<rparr>" b1 w7 "''NotFound''" "''Not Found''" 8
              helpers_tags_failing]
  by (simp add: conn_not_found_def helpers_tags_failing_def b1_def w7_def Let_def)

text \<open>
  Claim C9. Read writes two fields of the record at most: the identity, which becomes empty
  exactly when the existence check answers not-found and is unchanged otherwise, and the
  tags. The bucket name, ACL, website flag, index document and error document are returned
  as they were received. The error and the record Read returns are determined by the record
  and by the answers of the existence check and of the tag fetch: two calls that receive the
  same answers, in whatever remote state, return the same error and the same record.
\<close>

theorem Read_frame_and_determinism:
  "bucket (fst (snd (resourceAwsS3BucketRead h meta d w))) = bucket d \<and>
   acl (fst (snd (resourceAwsS3BucketRead h meta d w))) = acl d \<and>
   website (fst (snd (resourceAwsS3BucketRead h meta d w))) = website d \<and>
   index_document (fst (snd (resourceAwsS3BucketRead h meta d w))) = index_document d \<and>
   error_document (fst (snd (resourceAwsS3BucketRead h meta d w))) = error_document d \<and>
   fst (snd (resourceAwsS3BucketRead h meta d w)) =
     d\<lparr>ID := ID (fst (snd (resourceAwsS3BucketRead h meta d w))),
       tags := tags (fst (snd (resourceAwsS3BucketRead h meta d w)))\<rparr> \<and>
   ID (fst (snd (resourceAwsS3BucketRead h meta d w))) =
     (case fst (s3conn meta (HeadBucket (ID d)) (remote w)) of
        None \<Rightarrow> ID d
      | Some e \<Rightarrow> if isNotFound e then [] else ID d) \<and>
   (fst (s3conn meta (HeadBucket (ID d)) (remote w)) =
      fst (s3conn meta (HeadBucket (ID d)) (remote w')) \<and>
    fst (getTagSetS3 h
          (case fst (s3conn meta (HeadBucket (ID d)) (remote w)) of
             None \<Rightarrow> ID d
           | Some e \<Rightarrow> if isNotFound e then [] else ID d)
          (snd (s3conn meta (HeadBucket (ID d)) (remote w)))) =
      fst (getTagSetS3 h
            (case fst (s3conn meta (HeadBucket (ID d)) (remote w)) of
               None \<Rightarrow> ID d
             | Some e \<Rightarrow> if isNotFound e then [] else ID d)
            (snd (s3conn meta (HeadBucket (ID d)) (remote w'))))
    \<longrightarrow> fst (resourceAwsS3BucketRead h meta d w) = fst (resourceAwsS3BucketRead h meta d w') \<and>
        fst (snd (resourceAwsS3BucketRead h meta d w)) =
        fst (snd (resourceAwsS3BucketRead h meta d w')))"
proof -
  let ?d' = "fst (snd (resourceAwsS3BucketRead h meta d w))"
  have r: "?d' = d\<lparr>ID := ID ?d', tags := tags ?d'\<rparr>"
    by (rule Read_record)
  have "bucket ?d' = bucket (d\<lparr>ID := ID ?d', tags := tags ?d'\<rparr>)"
       "acl ?d' = acl (d\<lparr>ID := ID ?d', tags := tags ?d'\<rparr>)"
       "website ?d' = website (d\<lparr>ID := ID ?d', tags := tags ?d'\<rparr>)"
       "index_document ?d' = index_document (d\<lparr>ID := ID ?d', tags := tags ?d'\<rparr>)"
       "error_document ?d' = error_document (d\<lparr>ID := ID ?d', tags := tags ?d'\<rparr>)"
    using r by simp_all
  then have f: "bucket ?d' = bucket d" "acl ?d' = acl d" "website ?d' = website d"
       "index_document ?d' = index_document d" "error_document ?d' = error_document d"
    by simp_all
  show ?thesis
    using f r Read_ID [of h meta d w] Read_responses [of meta d w w' h] by blast
qed

theorem Read_frame_and_determinism_witness:
  "bucket (fst (snd (resourceAwsS3BucketRead helpers_ok
       \<lparr>s3conn = conn_not_found, region = ''us-east-1''\<rparr> b1 w0))) = bucket b1 \<and>
   acl (fst (snd (resourceAwsS3BucketRead helpers_ok
       \<lparr>s3conn = conn_not_found, region = ''us-east-1''\<rparr> b1 w0))) = acl b1 \<and>
   website (fst (snd (resourceAwsS3BucketRead helpers_ok
       \<lparr>s3conn = conn_not_found, region = ''us-east-1''\<rparr> b1 w0))) = website b1 \<and>
   index_document (fst (snd (resourceAwsS3BucketRead helpers_ok
       \<lparr>s3conn = conn_not_found, region = ''us-east-1''\<rparr> b1 w0))) = index_document b1 \<and>
   error_document (fst (snd (resourceAwsS3BucketRead helpers_ok
       \<lparr>s3conn = conn_not_found, region = ''us-east-1''\<rparr> b1 w0))) = error_document b1 \<and>
   ID b1 = ''b1'' \<and>
   ID (fst (snd (resourceAwsS3BucketRead helpers_ok
       \<lparr>s3conn = conn_not_found, region = ''us-east-1''\<rparr> b1 w0))) = [] \<and>
   remote w0 = 0 \<and> remote w7 = 7 \<and>
   fst (conn_not_found (HeadBucket ''b1'') 0) = fst (conn_not_found (HeadBucket ''b1'') 7) \<and>
   fst (getTagSetS3 helpers_ok [] 1) = fst (getTagSetS3 helpers_ok [] 8) \<and>
   fst (resourceAwsS3BucketRead helpers_ok
          \<lparr>s3conn = conn_not_found, region = ''us-east-1''\<rparr> b1 w0) =
   fst (resourceAwsS3BucketRead helpers_ok
          \<lparr>s3conn = conn_not_found, region = ''us-east-1''\<rparr> b1 w7) \<and>
   fst (snd (resourceAwsS3BucketRead helpers_ok
          \<lparr>s3conn = conn_not_found, region = ''us-east-1''\<rparr> b1 w0)) =
   fst (snd (resourceAwsS3BucketRead helpers_ok
          \<lparr>s3conn = conn_not_found, region = ''us-east-1''\<rparr> b1 w7))"
proof -
  let ?m = "\<lparr>s3conn = conn_not_found, region = ''us-east-1''\<rparr>"
  let ?i = "case fst (s3conn ?m (HeadBucket (ID b1)) (remote w0)) of
              None \<Rightarrow> ID b1
            | Some e \<Rightarrow> if isNotFound e then [] else ID b1"
  note t = Read_frame_and_determinism [of helpers_ok ?m b1 w0 w7]
  have h1: "fst (s3conn ?m (HeadBucket (ID b1)) (remote w0)) =
            fst (s3conn ?m (HeadBucket (ID b1)) (remote w7))"
    by (simp add: conn_not_found_def)
  have h2: "fst (getTagSetS3 helpers_ok ?i (snd (s3conn ?m (HeadBucket (ID b1)) (remote w0)))) =
            fst (getTagSetS3 helpers_ok ?i (snd (s3conn ?m (HeadBucket (ID b1)) (remote w7))))"
    by (simp add: helpers_ok_def)
  have i: "?i = []"
    by (simp add: conn_not_found_def)
  have c: "ID b1 = ''b1''" "remote w0 = 0" "remote w7 = 7"
    "fst (conn_not_found (HeadBucket ''b1'') 0) = fst (conn_not_found (HeadBucket ''b1'') 7)"
    "fst (getTagSetS3 helpers_ok [] 1) = fst (getTagSetS3 helpers_ok [] 8)"
    by (simp_all add: conn_not_found_def helpers_ok_def b1_def w0_def w7_def)
  from t have "ID (fst (snd (resourceAwsS3BucketRead helpers_ok ?m b1 w0))) = ?i"
    by blast
  also note i
  finally have "ID (fst (snd (resourceAwsS3BucketRead helpers_ok ?m b1 w0))) = []" .
  with t h1 h2 c show ?thesis by blast
qed

subsection \<open>Update\<close>

lemma Update_tags_error_eq:
  "fst (setTagsS3 h d (remote w)) = Some e \<Longrightarrow>
   resourceAwsS3BucketUpdate h meta d w =
     (Some e, fst (snd (setTagsS3 h d (remote w))),
      \<lparr>remote = snd (snd (setTagsS3 h d (remote w))), calls = calls w @ [SetTagsS3 d]\<rparr>)"
  by (simp add: resourceAwsS3BucketUpdate_def call_setTagsS3_eq Let_def)

lemma Update_tags_ok_eq:
  "fst (setTagsS3 h d (remote w)) = None \<Longrightarrow>
   resourceAwsS3BucketUpdate h meta d w =
     (case fst (updateWebsite (s3conn meta) (fst (snd (setTagsS3 h d (remote w))))
                  \<lparr>remote = snd (snd (setTagsS3 h d (remote w))), calls = calls w @ [SetTagsS3 d]\<rparr>) of
        Some e \<Rightarrow>
          (Some e, fst (snd (setTagsS3 h d (remote w))),
           snd (updateWebsite (s3conn meta) (fst (snd (setTagsS3 h d (remote w))))
                  \<lparr>remote = snd (snd (setTagsS3 h d (remote w))), calls = calls w @ [SetTagsS3 d]\<rparr>))
      | None \<Rightarrow>
          resourceAwsS3BucketRead h meta (fst (snd (setTagsS3 h d (remote w))))
            (snd (updateWebsite (s3conn meta) (fst (snd (setTagsS3 h d (remote w))))
                  \<lparr>remote = snd (snd (setTagsS3 h d (remote w))), calls = calls w @ [SetTagsS3 d]\<rparr>)))"
  by (simp add: resourceAwsS3BucketUpdate_def call_setTagsS3_eq Let_def split: prod.split option.split)

text \<open>
  Claim C3. Update runs tag reconciliation, then website reconciliation, then Read, and
  stops at the first error. With \<open>(e1, d1, r1)\<close> the answer of \<open>setTagsS3\<close> and \<open>(e2, w2)\<close>
  the answer of \<open>updateWebsite\<close> run after it: if \<open>e1\<close> is an error, Update returns it and
  the log holds the tag call only; otherwise, if \<open>e2\<close> is an error, Update returns it and
  the log holds the tag call and one website request; otherwise Update returns what Read
  returns, and the log holds the tag call, the website request, and then Read's calls,
  which begin with the existence check.
\<close>

theorem Update_order_fail_fast:
  assumes "setTagsS3 h d (remote w) = (e1, d1, r1)"
    and "updateWebsite (s3conn meta) d1 \<lparr>remote = r1, calls = calls w @ [SetTagsS3 d]\<rparr> = (e2, w2)"
  shows "resourceAwsS3BucketUpdate h meta d w =
           (case e1 of
              Some e \<Rightarrow> (Some e, d1, \<lparr>remote = r1, calls = calls w @ [SetTagsS3 d]\<rparr>)
            | None \<Rightarrow>
                (case e2 of
                   Some e \<Rightarrow> (Some e, d1, w2)
                 | None \<Rightarrow> resourceAwsS3BucketRead h meta d1 w2)) \<and>
         (\<exists>req. calls w2 = calls w @ [SetTagsS3 d, S3 req] \<and>
                (req = DeleteBucketWebsite (bucket d1) \<or>
                 (\<exists>c. req = PutBucketWebsite (bucket d1) c))) \<and>
         (\<exists>rest. calls (snd (snd (resourceAwsS3BucketRead h meta d1 w2))) =
                   calls w2 @ S3 (HeadBucket (ID d1)) # rest)"
proof -
  let ?w1 = "\<lparr>remote = r1, calls = calls w @ [SetTagsS3 d]\<rparr>"
  have a: "resourceAwsS3BucketUpdate h meta d w =
           (case e1 of
              Some e \<Rightarrow> (Some e, d1, ?w1)
            | None \<Rightarrow>
                (case e2 of
                   Some e \<Rightarrow> (Some e, d1, w2)
                 | None \<Rightarrow> resourceAwsS3BucketRead h meta d1 w2))"
  proof (cases e1)
    case None
    with assms show ?thesis by (simp add: Update_tags_ok_eq cong: option.case_cong)
  next
    case (Some e)
    with assms show ?thesis by (simp add: Update_tags_error_eq)
  qed
  have b: "\<exists>req. calls w2 = calls w @ [SetTagsS3 d, S3 req] \<and>
                (req = DeleteBucketWebsite (bucket d1) \<or>
                 (\<exists>c. req = PutBucketWebsite (bucket d1) c))"
    using updateWebsite_world [of "s3conn meta" d1 ?w1] assms(2)
    by (cases "website d1") (simp_all add: Let_def)
  have c: "\<exists>rest. calls (snd (snd (resourceAwsS3BucketRead h meta d1 w2))) =
                   calls w2 @ S3 (HeadBucket (ID d1)) # rest"
    using Read_calls [of h meta d1 w2] by blast
  from a b c show ?thesis by blast
qed

theorem Update_order_fail_fast_witness:
  "setTagsS3 helpers_tags_failing b1 (remote w0) = (Some (errorString ''tags refused''), b1, 1) \<and>
   resourceAwsS3BucketUpdate helpers_tags_failing \<lparr>s3conn = conn_ok, region = ''us-east-1''\<rparr> b1 w0 =
     (Some (errorString ''tags refused''), b1, \<lparr>remote = 1, calls = [SetTagsS3 b1]\<rparr>) \<and>
   setTagsS3 helpers_ok b1 (remote w0) = (None, b1, 1) \<and>
   resourceAwsS3BucketUpdate helpers_ok \<lparr>s3conn = conn_website_failing, region = ''us-east-1''\<rparr> b1 w0 =
     (Some (errorString ''Error putting S3 website: no website''), b1,
      \<lparr>remote = 2,
       calls = [SetTagsS3 b1,
                S3 (PutBucketWebsite ''b1''
                     \<lparr>IndexDocument = Some ''index.html'', ErrorDocument = None\<rparr>)]\<rparr>) \<and>
   resourceAwsS3BucketUpdate helpers_ok \<lparr>s3conn = conn_ok, region = ''us-east-1''\<rparr> b1 w0 =
     resourceAwsS3BucketRead helpers_ok \<lparr>s3conn = conn_ok, region = ''us-east-1''\<rparr> b1
       \<lparr>remote = 2,
        calls = [SetTagsS3 b1,
                 S3 (PutBucketWebsite ''b1''
                      \<lparr>IndexDocument = Some ''index.html'', ErrorDocument = None\<rparr>)]\<rparr>"
proof -
  let ?w1 = "\<lparr>remote = 1, calls = calls w0 @ [SetTagsS3 b1]\<rparr> :: nat world"
  let ?put = "S3 (PutBucketWebsite ''b1'' \<lparr>IndexDocument = Some ''index.html'', ErrorDocument = None\<rparr>)"
  let ?w2 = "\<lparr>remote = 2, calls = [SetTagsS3 b1, ?put]\<rparr> :: nat world"
  have t1: "setTagsS3 helpers_tags_failing b1 (remote w0) = (Some (errorString ''tags refused''), b1, 1)"
    by (simp add: helpers_tags_failing_def w0_def)
  have t2: "setTagsS3 helpers_ok b1 (remote w0) = (None, b1, 1)"
    by (simp add: helpers_ok_def w0_def)
  have u1: "updateWebsite (s3conn \<lparr>s3conn = conn_ok, region = ''us-east-1''\<rparr>) b1 ?w1 = (None, ?w2)"
    by (simp add: updateWebsite_def s3call_eq Let_def conn_ok_def b1_def w0_def)
  have u2: "updateWebsite (s3conn \<lparr>s3conn = conn_website_failing, region = ''us-east-1''\<rparr>) b1 ?w1 =
              (Some (errorString ''Error putting S3 website: no website''), ?w2)"
    by (simp add: updateWebsite_def s3call_eq Let_def conn_website_failing_def b1_def w0_def)
  have c: "calls w0 = []" by (simp add: w0_def)
  from Update_order_fail_fast [OF t1 u1]
  have a: "resourceAwsS3BucketUpdate helpers_tags_failing \<lparr>s3conn = conn_ok, region = ''us-east-1''\<rparr> b1 w0 =
     (Some (errorString ''tags refused''), b1, \<lparr>remote = 1, calls = [SetTagsS3 b1]\<rparr>)"
    by (simp add: c)
  from Update_order_fail_fast [OF t2 u2]
  have b: "resourceAwsS3BucketUpdate helpers_ok \<lparr>s3conn = conn_website_failing, region = ''us-east-1''\<rparr> b1 w0 =
     (Some (errorString ''Error putting S3 website: no website''), b1, ?w2)"
    by simp
  from Update_order_fail_fast [OF t2 u1]
  have d: "resourceAwsS3BucketUpdate helpers_ok \<lparr>s3conn = conn_ok, region = ''us-east-1''\<rparr> b1 w0 =
     resourceAwsS3BucketRead helpers_ok \<lparr>s3conn = conn_ok, region = ''us-east-1''\<rparr> b1 ?w2"
    by simp
  from t1 t2 a b d show ?thesis by blast
qed

subsection \<open>No check of the identity\<close>

text \<open>
  Claim C8, as the code has it. None of the three operations tests the identity before it
  acts. With an empty identity, Delete still issues its one \<open>DeleteBucket\<close> request, for the
  empty name, and returns what the service answers; with an empty identity, Update still
  begins with the tag reconciliation and returns its error when it fails; with an identity
  already assigned, Create still begins with the \<open>CreateBucket\<close> request, and the error it
  returns is the one it returns for the same record without an identity.
\<close>

theorem lifecycle_no_identity_check:
  "(ID d = [] \<longrightarrow>
      resourceAwsS3BucketDelete meta d w =
        (fst (s3conn meta (DeleteBucket []) (remote w)), d,
         \<lparr>remote = snd (s3conn meta (DeleteBucket []) (remote w)),
          calls = calls w @ [S3 (DeleteBucket [])]\<rparr>)) \<and>
   (ID d = [] \<longrightarrow>
      (\<exists>rest. calls (snd (snd (resourceAwsS3BucketUpdate h meta d w))) =
                calls w @ SetTagsS3 d # rest) \<and>
      (\<forall>e. fst (setTagsS3 h d (remote w)) = Some e \<longrightarrow>
            fst (resourceAwsS3BucketUpdate h meta d w) = Some e)) \<and>
   (ID d \<noteq> [] \<longrightarrow>
      (\<exists>rest. calls (snd (snd (resourceAwsS3BucketCreate h meta d w))) =
                calls w @ S3 (CreateBucket (bucket d) (acl d)
                     (if region meta = ''us-east-1'' then None else Some (region meta))) # rest) \<and>
      fst (resourceAwsS3BucketCreate h meta d w) =
      fst (resourceAwsS3BucketCreate h meta (d\<lparr>ID := []\<rparr>) w))"
proof -
  have del: "ID d = [] \<longrightarrow>
      resourceAwsS3BucketDelete meta d w =
        (fst (s3conn meta (DeleteBucket []) (remote w)), d,
         \<lparr>remote = snd (s3conn meta (DeleteBucket []) (remote w)),
          calls = calls w @ [S3 (DeleteBucket [])]\<rparr>)"
    using Delete_eq [of meta d w] by simp
  have upd: "\<exists>rest. calls (snd (snd (resourceAwsS3BucketUpdate h meta d w))) =
                calls w @ SetTagsS3 d # rest"
    using Update_calls [of h meta d w] by blast
  have upe: "\<forall>e. fst (setTagsS3 h d (remote w)) = Some e \<longrightarrow>
            fst (resourceAwsS3BucketUpdate h meta d w) = Some e"
    by (simp add: Update_tags_error_eq)
  have cre: "\<exists>rest. calls (snd (snd (resourceAwsS3BucketCreate h meta d w))) =
                calls w @ S3 (CreateBucket (bucket d) (acl d)
                     (if region meta = ''us-east-1'' then None else Some (region meta))) # rest"
    using Create_calls [of h meta d w] by blast
  have cri: "fst (resourceAwsS3BucketCreate h meta d w) =
             fst (resourceAwsS3BucketCreate h meta (d\<lparr>ID := []\<rparr>) w)"
    by (simp add: resourceAwsS3BucketCreate_def s3call_eq Let_def SetId_def split: option.split)
  from del upd upe cre cri show ?thesis by blast
qed

theorem lifecycle_no_identity_check_witness:
  "ID b1_new = [] \<and>
   resourceAwsS3BucketDelete \<lparr>s3conn = conn_ok, region = ''us-east-1''\<rparr> b1_new w0 =
     (None, b1_new, \<lparr>remote = 1, calls = [S3 (DeleteBucket [])]\<rparr>) \<and>
   (\<exists>rest. calls (snd (snd (resourceAwsS3BucketUpdate helpers_tags_failing
               \<lparr>s3conn = conn_ok, region = ''us-east-1''\<rparr> b1_new w0))) = SetTagsS3 b1_new # rest) \<and>
   fst (setTagsS3 helpers_tags_failing b1_new (remote w0)) = Some (errorString ''tags refused'') \<and>
   fst (resourceAwsS3BucketUpdate helpers_tags_failing
          \<lparr>s3conn = conn_ok, region = ''us-east-1''\<rparr> b1_new w0) = Some (errorString ''tags refused'') \<and>
   ID b1 = ''b1'' \<and>
   (\<exists>rest. calls (snd (snd (resourceAwsS3BucketCreate helpers_ok
               \<lparr>s3conn = conn_ok, region = ''us-east-1''\<rparr> b1 w0))) =
            S3 (CreateBucket ''b1'' ''private'' None) # rest) \<and>
   fst (resourceAwsS3BucketCreate helpers_ok \<lparr>s3conn = conn_ok, region = ''us-east-1''\<rparr> b1 w0) =
   fst (resourceAwsS3BucketCreate helpers_ok \<lparr>s3conn = conn_ok, region = ''us-east-1''\<rparr>
          (b1\<lparr>ID := []\<rparr>) w0)"
proof -
  let ?m = "\<lparr>s3conn = conn_ok, region = ''us-east-1''\<rparr>"
  have i: "ID b1_new = []" "ID b1 = ''b1''" "ID b1 \<noteq> []"
    by (simp_all add: b1_new_def b1_def)
  have s: "fst (setTagsS3 helpers_tags_failing b1_new (remote w0)) = Some (errorString ''tags refused'')"
    by (simp add: helpers_tags_failing_def)
  have c: "calls w0 = []" "remote w0 = 0" "bucket b1 = ''b1''" "acl b1 = ''private''"
    "region ?m = ''us-east-1''"
    by (simp_all add: w0_def b1_def)
  from lifecycle_no_identity_check [of b1_new ?m w0 helpers_tags_failing] i(1)
  have "resourceAwsS3BucketDelete ?m b1_new w0 =
        (fst (s3conn ?m (DeleteBucket []) (remote w0)), b1_new,
         \<lparr>remote = snd (s3conn ?m (DeleteBucket []) (remote w0)),
          calls = calls w0 @ [S3 (DeleteBucket [])]\<rparr>)"
    and u: "\<exists>rest. calls (snd (snd (resourceAwsS3BucketUpdate helpers_tags_failing ?m b1_new w0))) =
                calls w0 @ SetTagsS3 b1_new # rest"
    and ue: "\<forall>e. fst (setTagsS3 helpers_tags_failing b1_new (remote w0)) = Some e \<longrightarrow>
            fst (resourceAwsS3BucketUpdate helpers_tags_failing ?m b1_new w0) = Some e"
    by blast+
  then have d: "resourceAwsS3BucketDelete ?m b1_new w0 =
     (None, b1_new, \<lparr>remote = 1, calls = [S3 (DeleteBucket [])]\<rparr>)"
    by (simp add: c conn_ok_def)
  from u have u': "\<exists>rest. calls (snd (snd (resourceAwsS3BucketUpdate helpers_tags_failing ?m b1_new w0))) =
                SetTagsS3 b1_new # rest"
    by (simp add: c)
  from ue s have ue': "fst (resourceAwsS3BucketUpdate helpers_tags_failing ?m b1_new w0) =
                 Some (errorString ''tags refused'')"
    by blast
  from lifecycle_no_identity_check [of b1 ?m w0 helpers_ok] i(3)
  have cr: "\<exists>rest. calls (snd (snd (resourceAwsS3BucketCreate helpers_ok ?m b1 w0))) =
                calls w0 @ S3 (CreateBucket (bucket b1) (acl b1)
                     (if region ?m = ''us-east-1'' then None else Some (region ?m))) # rest"
    and ci: "fst (resourceAwsS3BucketCreate helpers_ok ?m b1 w0) =
             fst (resourceAwsS3BucketCreate helpers_ok ?m (b1\<lparr>ID := []\<rparr>) w0)"
    by blast+
  from cr have cr': "\<exists>rest. calls (snd (snd (resourceAwsS3BucketCreate helpers_ok ?m b1 w0))) =
            S3 (CreateBucket ''b1'' ''private'' None) # rest"
    by (simp add: c)
  from i d u' s ue' cr' ci show ?thesis by blast
qed

text \<open>
  The claim as the spec states it fails: a Delete and an Update on a record without an
  identity, and a Create on a record that has one, all return nil when the service and the
  helpers succeed.
\<close>

theorem lifecycle_no_identity_check_counterexample:
  "ID b1_new = [] \<and>
   fst (resourceAwsS3BucketDelete \<lparr>s3conn = conn_ok, region = ''us-east-1''\<rparr> b1_new w0) = None \<and>
   fst (resourceAwsS3BucketUpdate helpers_ok \<lparr>s3conn = conn_ok, region = ''us-east-1''\<rparr> b1_new w0) = None \<and>
   ID b1 = ''b1'' \<and>
   fst (resourceAwsS3BucketCreate helpers_ok \<lparr>s3conn = conn_ok, region = ''us-east-1''\<rparr> b1 w0) = None"
  by (simp add: resourceAwsS3BucketDelete_def resourceAwsS3BucketUpdate_def
        resourceAwsS3BucketCreate_def resourceAwsS3BucketRead_def updateWebsite_def
        s3call_eq call_setTagsS3_eq call_getTagSetS3_eq Set_tags_def SetId_def Let_def
        conn_ok_def helpers_ok_def b1_new_def b1_def w0_def)

end
